theory Spec2Isabelle
  imports Complex_Main "HOL-Library.AList"
begin

section \<open>JavaScript numbers\<close>

text \<open>
  A JavaScript number is an IEEE-754 binary64 value. Finite values are kept as the
  rational they denote; the two zeros are identified (every operation of the program
  that is modelled here treats \<open>-0\<close> as \<open>0\<close>: \<open>String(-0)\<close> is \<open>"0"\<close>,
  \<open>-0 === 0\<close> holds, and \<open>Math.max(-0, 0)\<close> is \<open>0\<close>).
\<close>

datatype number = Fin rat | PInf | NInf | NaN

text \<open>The number of digits of \<open>n\<close> in base \<open>b\<close>.\<close>

function ndigits :: "int \<Rightarrow> int \<Rightarrow> nat" where
  "ndigits b n = (if n \<le> 0 \<or> b < 2 then 0 else Suc (ndigits b (n div b)))"
  by pat_completeness auto
termination
  by (relation "measure (\<lambda>(b, n). nat n)") (auto simp: int_div_less_self)

declare ndigits.simps [simp del]

definition pow_int :: "int \<Rightarrow> int \<Rightarrow> rat" where
  "pow_int b e = (if 0 \<le> e then of_int (b ^ nat e) else 1 / of_int (b ^ nat (- e)))"

text \<open>For \<open>a > 0\<close>, \<open>ilog b a\<close> is the exponent \<open>e\<close> with \<open>b^e \<le> a < b^(e+1)\<close>.\<close>

definition ilog :: "int \<Rightarrow> rat \<Rightarrow> int" where
  "ilog b a =
     (let (n, d) = quotient_of a;
          e0 = int (ndigits b n) - int (ndigits b d)
      in if pow_int b e0 \<le> a then e0 else e0 - 1)"

definition round_half_even :: "rat \<Rightarrow> int" where
  "round_half_even x =
     (let f = \<lfloor>x\<rfloor>; r = x - of_int f
      in if r < 1 / 2 then f else if 1 / 2 < r then f + 1
         else if even f then f else f + 1)"

text \<open>
  Rounding of an exact value to the nearest binary64 value, ties to even: 53 significant
  bits, least exponent \<open>-1022\<close> (below it the spacing stays \<open>2^-1074\<close>). The result
  overflows to an infinity when it reaches \<open>2^1024\<close>: the exponent is 1024 or more, or
  it is 1023 and the significand \<open>m\<close> was rounded up to \<open>2^53\<close>.
\<close>

definition round_to_double :: "rat \<Rightarrow> number" where
  "round_to_double q =
     (if q = 0 then Fin 0
      else let a = \<bar>q\<bar>;
               e = max (ilog 2 a) (- 1022);
               ulp = pow_int 2 (e - 52);
               m = round_half_even (a / ulp)
           in if 1024 \<le> e \<or> (e = 1023 \<and> 2 ^ 53 \<le> m)
              then (if q < 0 then NInf else PInf)
              else Fin (if q < 0 then - (of_int m * ulp) else of_int m * ulp))"

definition Number_isFinite :: "number \<Rightarrow> bool" where
  "Number_isFinite n = (case n of Fin _ \<Rightarrow> True | _ \<Rightarrow> False)"

definition isNaN :: "number \<Rightarrow> bool" where
  "isNaN n = (n = NaN)"

text \<open>The relational operators \<open><\<close> and \<open><=\<close>: false as soon as an operand is \<open>NaN\<close>.\<close>

fun num_less :: "number \<Rightarrow> number \<Rightarrow> bool" where
  "num_less NaN _ = False"
| "num_less _ NaN = False"
| "num_less (Fin a) (Fin b) = (a < b)"
| "num_less NInf NInf = False"
| "num_less NInf _ = True"
| "num_less _ NInf = False"
| "num_less PInf _ = False"
| "num_less _ PInf = True"

definition num_le :: "number \<Rightarrow> number \<Rightarrow> bool" where
  "num_le a b = (a \<noteq> NaN \<and> b \<noteq> NaN \<and> \<not> num_less b a)"

text \<open>\<open>Math.max\<close>, \<open>Math.min\<close> (two arguments) and \<open>Math.abs\<close>.\<close>

definition Math_max :: "number \<Rightarrow> number \<Rightarrow> number" where
  "Math_max a b = (if a = NaN \<or> b = NaN then NaN else if num_less a b then b else a)"

definition Math_min :: "number \<Rightarrow> number \<Rightarrow> number" where
  "Math_min a b = (if a = NaN \<or> b = NaN then NaN else if num_less b a then b else a)"

definition Math_abs :: "number \<Rightarrow> number" where
  "Math_abs n = (case n of Fin q \<Rightarrow> Fin \<bar>q\<bar> | NInf \<Rightarrow> PInf | _ \<Rightarrow> n)"

section \<open>Numbers and text\<close>

definition is_digit :: "char \<Rightarrow> bool" where
  "is_digit c = (c \<in> set ''0123456789'')"

definition digit_val :: "char \<Rightarrow> int" where
  "digit_val c = of_char c - 48"

definition digits_val :: "string \<Rightarrow> int" where
  "digits_val ds = foldl (\<lambda>a c. 10 * a + digit_val c) 0 ds"

text \<open>The decimal digits of a natural number, given as an integer.\<close>

function decimal :: "int \<Rightarrow> string" where
  "decimal n =
     (if n < 10 then [''0123456789'' ! nat n]
      else decimal (n div 10) @ [''0123456789'' ! nat (n mod 10)])"
  by pat_completeness auto
termination
  by (relation "measure nat") (auto simp: int_div_less_self)

declare decimal.simps [simp del]

text \<open>
  \<open>Number::toString\<close> prints the shortest decimal \<open>s \<times> 10^(n-k)\<close>, with \<open>k\<close> digits,
  whose nearest binary64 value is the number. \<open>shortest x p k fuel\<close> looks for it from
  \<open>k\<close> digits upwards, \<open>p\<close> being the number of digits of the integer part of \<open>x\<close>;
  17 digits are enough for every binary64 value.
\<close>

definition pick_digits :: "rat \<Rightarrow> rat \<Rightarrow> (int \<times> bool)" where
  "pick_digits x scale =
     (let lo = \<lfloor>x / scale\<rfloor>; hi = lo + 1;
          oklo = (round_to_double (of_int lo * scale) = Fin x);
          okhi = (round_to_double (of_int hi * scale) = Fin x);
          dlo = x - of_int lo * scale; dhi = of_int hi * scale - x;
          nearest = (if dlo < dhi then lo else if dhi < dlo then hi
                     else if even lo then lo else hi)
      in if oklo \<and> okhi then (nearest, True)
         else if oklo then (lo, True)
         else if okhi then (hi, True)
         else (nearest, False))"

fun shortest :: "rat \<Rightarrow> int \<Rightarrow> nat \<Rightarrow> nat \<Rightarrow> int \<times> nat" where
  "shortest x p k 0 = (fst (pick_digits x (pow_int 10 (p - int k))), k)"
| "shortest x p k (Suc fuel) =
     (let (s, ok) = pick_digits x (pow_int 10 (p - int k))
      in if ok then (s, k) else shortest x p (Suc k) fuel)"

definition pos_toString :: "rat \<Rightarrow> string" where
  "pos_toString x =
     (let p = ilog 10 x + 1;
          (s0, k) = shortest x p 1 16;
          (s, n) = (if s0 = 10 ^ k then (10 ^ (k - 1), p + 1) else (s0, p));
          D = decimal s
      in if int k \<le> n \<and> n \<le> 21 then D @ replicate (nat (n - int k)) CHR ''0''
         else if 0 < n \<and> n \<le> 21 then take (nat n) D @ ''.'' @ drop (nat n) D
         else if - 6 < n \<and> n \<le> 0 then ''0.'' @ replicate (nat (- n)) CHR ''0'' @ D
         else let e = n - 1;
                  es = (if e < 0 then ''-'' else ''+'') @ decimal \<bar>e\<bar>
              in if k = 1 then D @ ''e'' @ es
                 else take 1 D @ ''.'' @ drop 1 D @ ''e'' @ es)"

definition Number_toString :: "number \<Rightarrow> string" where
  "Number_toString n =
     (case n of
        NaN \<Rightarrow> ''NaN''
      | PInf \<Rightarrow> ''Infinity''
      | NInf \<Rightarrow> ''-Infinity''
      | Fin q \<Rightarrow> if q = 0 then ''0''
                 else if q < 0 then ''-'' @ pos_toString (- q)
                 else pos_toString q)"

text \<open>
  \<open>parseFloat\<close>: leading white space, a sign, then \<open>Infinity\<close> or the longest prefix
  that is a decimal literal (digits, a fraction, an exponent that has a digit); \<open>NaN\<close>
  when no digit is found.
\<close>

definition is_ws :: "char \<Rightarrow> bool" where
  "is_ws c = (of_char c \<in> {9, 10, 11, 12, 13, 32 :: nat})"

definition split_sign :: "string \<Rightarrow> bool \<times> string" where
  "split_sign s =
     (case s of
        c # r \<Rightarrow> if c = CHR ''-'' then (True, r) else if c = CHR ''+'' then (False, r)
                 else (False, s)
      | [] \<Rightarrow> (False, s))"

definition exponent_part :: "string \<Rightarrow> int" where
  "exponent_part s =
     (case s of
        c # r \<Rightarrow>
          if c = CHR ''e'' \<or> c = CHR ''E''
          then (let (neg, t) = split_sign r; ds = takeWhile is_digit t
                in if ds = [] then 0
                   else if neg then - digits_val ds else digits_val ds)
          else 0
      | [] \<Rightarrow> 0)"

definition parseFloat :: "string \<Rightarrow> number" where
  "parseFloat s =
     (let (neg, u) = split_sign (dropWhile is_ws s)
      in if take 8 u = ''Infinity'' then (if neg then NInf else PInf)
         else
           let ip = takeWhile is_digit u;
               r1 = dropWhile is_digit u;
               (fp, r2) = (case r1 of
                             c # r \<Rightarrow> if c = CHR ''.''
                                      then (takeWhile is_digit r, dropWhile is_digit r)
                                      else ([], r1)
                           | [] \<Rightarrow> ([], r1))
           in if ip = [] \<and> fp = [] then NaN
              else
                let m = (of_int (digits_val ip)
                          + of_int (digits_val fp) / 10 ^ length fp)
                        * pow_int 10 (exponent_part r2)
                in round_to_double (if neg then - m else m))"

section \<open>JavaScript values\<close>

text \<open>
  The values the component handles: what \<open>JSON.parse\<close> returns, \<open>undefined\<close> (the value
  of a missing property), and the hole that an assignment beyond the end of an array
  leaves behind (it occurs only as an array element and reads as \<open>undefined\<close>). An
  object is the list of its own properties in their order.
\<close>

datatype jv =
    JUndefined
  | JNull
  | JBool bool
  | JNum number
  | JStr string
  | JArr "jv list"
  | JObj "(string \<times> jv) list"
  | JHole

datatype error = TypeError | SyntaxError | QuotaExceededError

text \<open>\<open>v == null\<close>, which is also the test of \<open>??\<close> and \<open>?.\<close>.\<close>

definition nullish :: "jv \<Rightarrow> bool" where
  "nullish v = (v = JUndefined \<or> v = JNull \<or> v = JHole)"

definition nullish_or :: "jv \<Rightarrow> jv \<Rightarrow> jv" where
  "nullish_or a b = (if nullish a then b else a)"

definition truthy :: "jv \<Rightarrow> bool" where
  "truthy v =
     (case v of
        JUndefined \<Rightarrow> False
      | JHole \<Rightarrow> False
      | JNull \<Rightarrow> False
      | JBool b \<Rightarrow> b
      | JNum n \<Rightarrow> n \<noteq> Fin 0 \<and> n \<noteq> NaN
      | JStr s \<Rightarrow> s \<noteq> []
      | JArr _ \<Rightarrow> True
      | JObj _ \<Rightarrow> True)"

definition logical_or :: "jv \<Rightarrow> jv \<Rightarrow> jv" where
  "logical_or a b = (if truthy a then a else b)"

definition Array_isArray :: "jv \<Rightarrow> bool" where
  "Array_isArray v = (case v of JArr _ \<Rightarrow> True | _ \<Rightarrow> False)"

definition join_comma :: "string list \<Rightarrow> string" where
  "join_comma ss = (case ss of [] \<Rightarrow> [] | s # r \<Rightarrow> s @ concat (map (\<lambda>t. '','' @ t) r))"

text \<open>\<open>String(v)\<close>.\<close>

fun to_string :: "jv \<Rightarrow> string" where
  "to_string JUndefined = ''undefined''"
| "to_string JHole = ''undefined''"
| "to_string JNull = ''null''"
| "to_string (JBool b) = (if b then ''true'' else ''false'')"
| "to_string (JNum n) = Number_toString n"
| "to_string (JStr s) = s"
| "to_string (JArr xs) =
     join_comma (map (\<lambda>x. if x = JUndefined \<or> x = JNull \<or> x = JHole then [] else to_string x) xs)"
| "to_string (JObj kvs) = ''[object Object]''"

text \<open>
  Reading a property by name. The names the program reads are identifiers, none of them
  an array index or an inherited property, apart from \<open>length\<close>.
\<close>

definition get_prop :: "jv \<Rightarrow> string \<Rightarrow> error + jv" where
  "get_prop v k =
     (case v of
        JUndefined \<Rightarrow> Inl TypeError
      | JHole \<Rightarrow> Inl TypeError
      | JNull \<Rightarrow> Inl TypeError
      | JObj kvs \<Rightarrow> Inr (case map_of kvs k of None \<Rightarrow> JUndefined | Some x \<Rightarrow> x)
      | JArr xs \<Rightarrow> Inr (if k = ''length'' then JNum (Fin (of_nat (length xs))) else JUndefined)
      | JStr s \<Rightarrow> Inr (if k = ''length'' then JNum (Fin (of_nat (length s))) else JUndefined)
      | _ \<Rightarrow> Inr JUndefined)"

text \<open>\<open>v?.k\<close>.\<close>

definition get_opt :: "jv \<Rightarrow> string \<Rightarrow> jv" where
  "get_opt v k = (case get_prop v k of Inl _ \<Rightarrow> JUndefined | Inr x \<Rightarrow> x)"

section \<open>Helpers of the component\<close>

definition keep_char :: "char \<Rightarrow> bool" where
  "keep_char c = (is_digit c \<or> c = CHR ''.'' \<or> c = CHR ''-'')"

definition parseNum :: "jv \<Rightarrow> number" where
  "parseNum v =
     (if v = JNull \<or> v = JUndefined \<or> v = JHole then Fin 0
      else let n = parseFloat (filter keep_char (to_string v))
           in if Number_isFinite n then n else Fin 0)"

text \<open>
  \<open>daysUntil\<close> reads the clock and parses a date. Both belong to the host: the time
  value (milliseconds) of today's local midnight, \<open>new Date(today.toDateString())\<close>,
  and the time value of \<open>new Date(text)\<close>, absent for an invalid date. The subtraction
  and the division are binary64 operations. Nothing in the body throws, so the
  \<open>catch\<close> branch is never taken.
\<close>

record host_clock =
  midnight_ms :: int
  parse_date :: "string \<Rightarrow> int option"

definition num_sub :: "number \<Rightarrow> number \<Rightarrow> number" where
  "num_sub a b =
     (case (a, b) of
        (NaN, _) \<Rightarrow> NaN
      | (_, NaN) \<Rightarrow> NaN
      | (Fin x, Fin y) \<Rightarrow> round_to_double (x - y)
      | (Fin x, PInf) \<Rightarrow> NInf
      | (Fin x, NInf) \<Rightarrow> PInf
      | (PInf, PInf) \<Rightarrow> NaN
      | (PInf, _) \<Rightarrow> PInf
      | (NInf, NInf) \<Rightarrow> NaN
      | (NInf, _) \<Rightarrow> NInf)"

text \<open>Division by the positive constant \<open>86400000\<close>.\<close>

definition div_day :: "number \<Rightarrow> number" where
  "div_day a = (case a of Fin x \<Rightarrow> round_to_double (x / 86400000) | _ \<Rightarrow> a)"

definition Math_ceil :: "number \<Rightarrow> number" where
  "Math_ceil a = (case a of Fin x \<Rightarrow> Fin (of_int \<lceil>x\<rceil>) | _ \<Rightarrow> a)"

definition daysUntil :: "host_clock \<Rightarrow> jv \<Rightarrow> number" where
  "daysUntil clk dateISO =
     (let target = (case parse_date clk (to_string dateISO @ ''T23:59:59'') of
                      None \<Rightarrow> NaN
                    | Some t \<Rightarrow> Fin (of_int t))
      in Math_ceil (div_day (num_sub target (Fin (of_int (midnight_ms clk))))))"

text \<open>The object \<open>{ text, color }\<close>.\<close>

record info =
  info_text :: string
  info_color :: string

text \<open>The body of the \<open>francoInfo\<close> memo, as a function of \<open>header.francoDate\<close>.\<close>

definition francoInfo :: "host_clock \<Rightarrow> jv \<Rightarrow> info" where
  "francoInfo clk francoDate =
     (let d = daysUntil clk francoDate
      in if isNaN d then \<lparr>info_text = ''Invalid Franco Date'', info_color = ''#b91c1c''\<rparr>
         else if num_less d (Fin 0)
         then \<lparr>info_text = ''Franco date passed by '' @ Number_toString (Math_abs d) @ '' day(s).'',
               info_color = ''#b91c1c''\<rparr>
         else if num_le d (Fin 15)
         then \<lparr>info_text = Number_toString d @ '' day(s) left until Franco date.'',
               info_color = ''#b45309''\<rparr>
         else \<lparr>info_text = Number_toString d @ '' day(s) left until Franco date.'',
               info_color = ''#065f46''\<rparr>)"

text \<open>
  A clock for the examples: today is 1 January 1970, and the host parses three dates,
  to the last second of their day.
\<close>

definition epoch_clock :: host_clock where
  "epoch_clock =
     \<lparr>midnight_ms = 0,
      parse_date = (\<lambda>s. if s = ''1970-01-01T23:59:59'' then Some 86399000
                         else if s = ''1970-01-21T23:59:59'' then Some 1814399000
                         else if s = ''1969-12-30T23:59:59'' then Some (- 86401000)
                         else None)\<rparr>"

section \<open>Objects, arrays and JSON text\<close>

text \<open>The own enumerable properties of a value, as an object spread \<open>{...v}\<close> copies them.\<close>

definition own_props :: "jv \<Rightarrow> (string \<times> jv) list" where
  "own_props v =
     (case v of
        JObj kvs \<Rightarrow> kvs
      | JArr xs \<Rightarrow> filter (\<lambda>(k, x). x \<noteq> JHole)
                    (zip (map (\<lambda>i. decimal (int i)) [0..<length xs]) xs)
      | JStr s \<Rightarrow> zip (map (\<lambda>i. decimal (int i)) [0..<length s]) (map (\<lambda>c. JStr [c]) s)
      | _ \<Rightarrow> [])"

text \<open>The elements an array spread \<open>[...v]\<close> copies; a value that is not iterable throws.\<close>

definition iterate :: "jv \<Rightarrow> error + jv list" where
  "iterate v =
     (case v of
        JArr xs \<Rightarrow> Inr (map (\<lambda>x. if x = JHole then JUndefined else x) xs)
      | JStr s \<Rightarrow> Inr (map (\<lambda>c. JStr [c]) s)
      | _ \<Rightarrow> Inl TypeError)"

text \<open>The receiver of \<open>.map\<close> and \<open>.filter\<close>: only an array has these methods.\<close>

definition as_array :: "jv \<Rightarrow> error + jv list" where
  "as_array v = (case v of JArr xs \<Rightarrow> Inr xs | _ \<Rightarrow> Inl TypeError)"

text \<open>\<open>v[i]\<close>.\<close>

definition get_index :: "jv \<Rightarrow> nat \<Rightarrow> error + jv" where
  "get_index v i =
     (case v of
        JUndefined \<Rightarrow> Inl TypeError
      | JHole \<Rightarrow> Inl TypeError
      | JNull \<Rightarrow> Inl TypeError
      | JArr xs \<Rightarrow> Inr (if i < length xs \<and> xs ! i \<noteq> JHole then xs ! i else JUndefined)
      | JStr s \<Rightarrow> Inr (if i < length s then JStr [s ! i] else JUndefined)
      | JObj kvs \<Rightarrow> Inr (case map_of kvs (decimal (int i)) of None \<Rightarrow> JUndefined | Some x \<Rightarrow> x)
      | _ \<Rightarrow> Inr JUndefined)"

text \<open>\<open>xs[i] = v\<close>: an index beyond the end extends the array and leaves holes.\<close>

definition array_set :: "jv list \<Rightarrow> nat \<Rightarrow> jv \<Rightarrow> jv list" where
  "array_set xs i v =
     (if i < length xs then xs[i := v]
      else xs @ replicate (i - length xs) JHole @ [v])"

text \<open>\<open>xs.map(f)\<close>: the callback sees the element and its index, holes are skipped and
  kept, and an exception of the callback ends the loop.\<close>

fun map_from :: "(jv \<Rightarrow> nat \<Rightarrow> error + jv) \<Rightarrow> nat \<Rightarrow> jv list \<Rightarrow> error + jv list" where
  "map_from f i [] = Inr []"
| "map_from f i (x # xs) =
     (if x = JHole
      then (case map_from f (Suc i) xs of Inl e \<Rightarrow> Inl e | Inr ys \<Rightarrow> Inr (JHole # ys))
      else (case f x i of
              Inl e \<Rightarrow> Inl e
            | Inr y \<Rightarrow> (case map_from f (Suc i) xs of
                         Inl e \<Rightarrow> Inl e
                       | Inr ys \<Rightarrow> Inr (y # ys))))"

definition array_map :: "(jv \<Rightarrow> nat \<Rightarrow> error + jv) \<Rightarrow> jv list \<Rightarrow> error + jv list" where
  "array_map f xs = map_from f 0 xs"

text \<open>\<open>xs.filter((_, x) => p(x))\<close>, a test of the index alone; holes are dropped.\<close>

definition filter_index :: "(nat \<Rightarrow> bool) \<Rightarrow> jv list \<Rightarrow> jv list" where
  "filter_index p xs =
     map snd (filter (\<lambda>(x, e). e \<noteq> JHole \<and> p x) (zip [0..<length xs] xs))"

text \<open>\<open>JSON.stringify\<close>.\<close>

definition quote_char :: "char \<Rightarrow> string" where
  "quote_char c =
     (if c = CHR 0x22 then [CHR 0x5C, CHR 0x22]
      else if c = CHR 0x5C then [CHR 0x5C, CHR 0x5C]
      else if c = CHR 0x08 then [CHR 0x5C, CHR ''b'']
      else if c = CHR 0x0C then [CHR 0x5C, CHR ''f'']
      else if c = CHR 0x0A then [CHR 0x5C, CHR ''n'']
      else if c = CHR 0x0D then [CHR 0x5C, CHR ''r'']
      else if c = CHR 0x09 then [CHR 0x5C, CHR ''t'']
      else if (of_char c :: nat) < 32
      then [CHR 0x5C, CHR ''u'', CHR ''0'', CHR ''0'',
            ''0123456789abcdef'' ! ((of_char c :: nat) div 16),
            ''0123456789abcdef'' ! ((of_char c :: nat) mod 16)]
      else [c])"

definition quote :: "string \<Rightarrow> string" where
  "quote s = [CHR 0x22] @ concat (map quote_char s) @ [CHR 0x22]"

fun serialize :: "jv \<Rightarrow> string option" where
  "serialize JUndefined = None"
| "serialize JHole = None"
| "serialize JNull = Some ''null''"
| "serialize (JBool b) = Some (if b then ''true'' else ''false'')"
| "serialize (JNum n) = Some (if Number_isFinite n then Number_toString n else ''null'')"
| "serialize (JStr s) = Some (quote s)"
| "serialize (JArr xs) =
     Some (''['' @ join_comma (map (\<lambda>x. case serialize x of None \<Rightarrow> ''null'' | Some t \<Rightarrow> t) xs)
           @ '']'')"
| "serialize (JObj kvs) =
     Some (''{'' @ join_comma (concat (map (\<lambda>kv. case serialize (snd kv) of
                                                  None \<Rightarrow> []
                                                | Some t \<Rightarrow> [quote (fst kv) @ '':'' @ t]) kvs))
           @ ''}'')"

text \<open>The text that \<open>setItem\<close> stores for \<open>JSON.stringify(v)\<close>.\<close>

definition JSON_stringify :: "jv \<Rightarrow> string" where
  "JSON_stringify v = (case serialize v of None \<Rightarrow> ''undefined'' | Some t \<Rightarrow> t)"

text \<open>
  \<open>JSON.parse\<close> belongs to the host and is a parameter \<open>parse\<close> of the model, absent
  where the host throws a \<open>SyntaxError\<close>; the one text the program itself writes,
  \<open>"null"\<close>, denotes \<open>null\<close>.
\<close>

definition JSON_parse :: "(string \<Rightarrow> jv option) \<Rightarrow> string \<Rightarrow> error + jv" where
  "JSON_parse parse s =
     (if s = ''null'' then Inr JNull
      else case parse s of None \<Rightarrow> Inl SyntaxError | Some v \<Rightarrow> Inr v)"

section \<open>Local storage\<close>

text \<open>
  The slots of \<open>localStorage\<close>, and whether the host accepts a write (a write to a full
  storage throws).
\<close>

record localStorage =
  slots :: "string \<Rightarrow> string option"
  writable :: bool

definition getItem :: "localStorage \<Rightarrow> string \<Rightarrow> string option" where
  "getItem st k = slots st k"

definition setItem :: "localStorage \<Rightarrow> string \<Rightarrow> string \<Rightarrow> error + localStorage" where
  "setItem st k v =
     (if writable st then Inr (st\<lparr>slots := (slots st)(k \<mapsto> v)\<rparr>)
      else Inl QuotaExceededError)"

definition removeItem :: "localStorage \<Rightarrow> string \<Rightarrow> localStorage" where
  "removeItem st k = st\<lparr>slots := (slots st)(k := None)\<rparr>"

text \<open>\<open>localStorage.getItem(k) || "null"\<close>.\<close>

definition getItem_or_null :: "localStorage \<Rightarrow> string \<Rightarrow> string" where
  "getItem_or_null st k = (case getItem st k of None \<Rightarrow> ''null'' | Some s \<Rightarrow> if s = [] then ''null'' else s)"

section \<open>Constants and defaults\<close>

definition BENEFICIARY_OPTIONS :: jv where
  "BENEFICIARY_OPTIONS =
     JObj [(''KNPC_73000'',
            JObj [(''beneficiaryName'', JStr ''Kuwait National Petroleum Company''),
                  (''ltsaNumber'', JStr ''73000''),
                  (''label'', JStr (''Option 1: 73000 '' @ [CHR 0xE2, CHR 0x80, CHR 0x93]
                                    @ '' Kuwait National Petroleum Company''))]),
           (''KIPIC_71449'',
            JObj [(''beneficiaryName'', JStr ''Kuwait Integrated Petroleum Industries Company''),
                  (''ltsaNumber'', JStr ''71449''),
                  (''label'', JStr (''Option 2: 71449 '' @ [CHR 0xE2, CHR 0x80, CHR 0x93]
                                    @ '' Kuwait Integrated Petroleum Industries Company''))])]"

definition STORAGE_KEY :: string where
  "STORAGE_KEY = ''po_app_state_v3''"

definition defaultHeader :: jv where
  "defaultHeader =
     JObj [(''poNumber'', JStr ''419513''),
           (''ltsaNumber'', get_opt (get_opt BENEFICIARY_OPTIONS ''KNPC_73000'') ''ltsaNumber''),
           (''beneficiaryName'',
              get_opt (get_opt BENEFICIARY_OPTIONS ''KNPC_73000'') ''beneficiaryName''),
           (''ltsaDescription'',
              JStr ''Long-Term Service Agreement related to supply and support for refinery operations.''),
           (''dateOfIssue'', JStr ''2025-04-16''),
           (''siteDate'', JStr ''2025-08-14''),
           (''francoDate'', JStr ''2025-08-14''),
           (''status'', JStr ''Supplier PO Released'')]"

definition defaultItem :: jv where
  "defaultItem =
     JObj [(''maximoNo'', JStr ''''), (''item'', JStr ''''), (''description'', JStr ''''),
           (''tpi'', JStr ''''), (''material'', JStr ''''), (''grade'', JStr ''''),
           (''unitCode'', JStr ''''), (''qty'', JStr ''''), (''unitPrice'', JStr '''')]"

definition defaultState :: jv where
  "defaultState =
     JObj [(''option'', JStr ''KNPC_73000''), (''header'', defaultHeader),
           (''items'', JArr [defaultItem]), (''sales'', JArr [])]"

section \<open>Loading, migration and import\<close>

text \<open>
  The callback that both the migration and the import apply to an item row \<open>r\<close>: the
  object literal it builds, and the callback itself. Every property read of a row that is
  \<open>null\<close> or \<open>undefined\<close> throws, the first one included.
\<close>

definition item_fields :: "jv \<Rightarrow> jv" where
  "item_fields r =
     JObj [(''maximoNo'', nullish_or (get_opt r ''maximoNo'') (JStr '''')),
           (''item'', nullish_or (get_opt r ''item'') (JStr '''')),
           (''description'', nullish_or (get_opt r ''description'') (JStr '''')),
           (''tpi'', nullish_or (get_opt r ''tpi'') (JStr '''')),
           (''material'', nullish_or (get_opt r ''material'') (JStr '''')),
           (''grade'', nullish_or (get_opt r ''grade'') (JStr '''')),
           (''unitCode'', nullish_or (get_opt r ''unitCode'') (JStr '''')),
           (''qty'', nullish_or (nullish_or (get_opt r ''qty'') (get_opt r ''ltsaQty''))
                      (JStr '''')),
           (''unitPrice'', nullish_or (get_opt r ''unitPrice'') (JStr ''''))]"

definition normalize_item :: "jv \<Rightarrow> nat \<Rightarrow> error + jv" where
  "normalize_item r i = (if nullish r then Inl TypeError else Inr (item_fields r))"

text \<open>The sales callback of the migration, \<open>s === 0 ? "" : String(s ?? "")\<close>: the value it
  returns, and the callback.\<close>

definition sale_text :: "jv \<Rightarrow> jv" where
  "sale_text s =
     (if s = JNum (Fin 0) then JStr '''' else JStr (to_string (nullish_or s (JStr ''''))))"

definition migrate_sale :: "jv \<Rightarrow> nat \<Rightarrow> error + jv" where
  "migrate_sale s i = Inr (sale_text s)"

text \<open>The sales callback of the import, \<open>s == null ? "" : String(s)\<close>.\<close>

definition import_sale_text :: "jv \<Rightarrow> jv" where
  "import_sale_text s = (if nullish s then JStr '''' else JStr (to_string s))"

definition import_sale :: "jv \<Rightarrow> nat \<Rightarrow> error + jv" where
  "import_sale s i = Inr (import_sale_text s)"

text \<open>
  The object literal \<open>{ ...old, items: \<dots>, sales: \<dots> }\<close> of the initializer, for a
  truthy \<open>old\<close>; \<open>Array.isArray\<close> chooses between the two branches of each
  conditional. A property that \<open>old\<close> has keeps its place and takes the new value; one
  that it lacks is added at the end.
\<close>

definition migrate :: "jv \<Rightarrow> error + jv" where
  "migrate old =
     (case (case get_opt old ''items'' of
              JArr rows \<Rightarrow> array_map normalize_item rows
            | _ \<Rightarrow> Inr [defaultItem]) of
        Inl e \<Rightarrow> Inl e
      | Inr items \<Rightarrow>
          (case (case get_opt old ''sales'' of
                   JArr ss \<Rightarrow> array_map migrate_sale ss
                 | _ \<Rightarrow> Inr []) of
             Inl e \<Rightarrow> Inl e
           | Inr sales \<Rightarrow>
               Inr (JObj (AList.update ''sales'' (JArr sales)
                           (AList.update ''items'' (JArr items) (own_props old))))))"

text \<open>
  The body of the \<open>try\<close> block of the state initializer: the value it returns and the
  storage it leaves, or the exception that sends it to the \<open>catch\<close> block.
\<close>

definition load_try ::
  "(string \<Rightarrow> jv option) \<Rightarrow> localStorage \<Rightarrow> error + (jv \<times> localStorage)" where
  "load_try parse st =
     (case JSON_parse parse (getItem_or_null st STORAGE_KEY) of
        Inl e \<Rightarrow> Inl e
      | Inr v3 \<Rightarrow>
          if truthy v3 then Inr (v3, st)
          else
            (case JSON_parse parse (getItem_or_null st ''po_app_state_v2'') of
               Inl e \<Rightarrow> Inl e
             | Inr v2 \<Rightarrow>
                 (case JSON_parse parse (getItem_or_null st ''po_app_state_v1'') of
                    Inl e \<Rightarrow> Inl e
                  | Inr v1 \<Rightarrow>
                      let old = logical_or v2 v1
                      in if truthy old
                         then (case migrate old of
                                 Inl e \<Rightarrow> Inl e
                               | Inr migrated \<Rightarrow>
                                   (case setItem st STORAGE_KEY (JSON_stringify migrated) of
                                      Inl e \<Rightarrow> Inl e
                                    | Inr st' \<Rightarrow> Inr (migrated, st')))
                         else Inr (defaultState, st))))"

text \<open>The state initializer: the \<open>catch\<close> block returns the default state.\<close>

definition load :: "(string \<Rightarrow> jv option) \<Rightarrow> localStorage \<Rightarrow> jv \<times> localStorage" where
  "load parse st =
     (case load_try parse st of Inl e \<Rightarrow> (defaultState, st) | Inr r \<Rightarrow> r)"

text \<open>
  \<open>importJSON\<close>, from the text of the file on. The body of its \<open>try\<close> block gives the
  new state and storage, with the alert it shows if any, or the exception that sends
  it to the \<open>catch\<close> block; the \<open>catch\<close> block shows the second alert and changes nothing.
\<close>

datatype alert = Invalid_PO_file | Import_failed error

definition importJSON_try ::
  "(string \<Rightarrow> jv option) \<Rightarrow> jv \<times> localStorage \<Rightarrow> string
     \<Rightarrow> error + ((jv \<times> localStorage) \<times> alert option)" where
  "importJSON_try parse c text =
     (case JSON_parse parse text of
        Inl e \<Rightarrow> Inl e
      | Inr data \<Rightarrow>
          if \<not> truthy data \<or> \<not> truthy (get_opt data ''header'')
             \<or> \<not> Array_isArray (get_opt data ''items'')
          then Inr (c, Some Invalid_PO_file)
          else
            (case as_array (get_opt data ''items'') of
               Inl e \<Rightarrow> Inl e
             | Inr rows \<Rightarrow>
                 (case array_map normalize_item rows of
                    Inl e \<Rightarrow> Inl e
                  | Inr items \<Rightarrow>
                      (case (case get_opt data ''sales'' of
                               JArr ss \<Rightarrow> array_map import_sale ss
                             | _ \<Rightarrow> Inr []) of
                         Inl e \<Rightarrow> Inl e
                       | Inr sales \<Rightarrow>
                           let migrated =
                                 JObj (AList.update ''sales'' (JArr sales)
                                        (AList.update ''items'' (JArr items) (own_props data)))
                           in (case setItem (snd c) STORAGE_KEY (JSON_stringify migrated) of
                                 Inl e \<Rightarrow> Inl e
                               | Inr st' \<Rightarrow> Inr ((migrated, st'), None))))))"

definition importJSON ::
  "(string \<Rightarrow> jv option) \<Rightarrow> jv \<times> localStorage \<Rightarrow> string
     \<Rightarrow> (jv \<times> localStorage) \<times> alert option" where
  "importJSON parse c text =
     (case importJSON_try parse c text of
        Inl e \<Rightarrow> (c, Some (Import_failed e))
      | Inr r \<Rightarrow> r)"

section \<open>Example documents\<close>

text \<open>A host parser that reads back the documents of a list, and rejects any other text.\<close>

definition parse_of :: "jv list \<Rightarrow> string \<Rightarrow> jv option" where
  "parse_of vs s = find (\<lambda>v. JSON_stringify v = s) vs"

definition legacy_doc :: jv where
  "legacy_doc =
     JObj [(''items'', JArr [JObj [(''ltsaQty'', JStr ''5'')]]),
           (''sales'', JArr [JNum (Fin 0)])]"

definition legacy_migrated :: jv where
  "legacy_migrated =
     JObj [(''items'',
            JArr [JObj [(''maximoNo'', JStr ''''), (''item'', JStr ''''),
                        (''description'', JStr ''''), (''tpi'', JStr ''''),
                        (''material'', JStr ''''), (''grade'', JStr ''''),
                        (''unitCode'', JStr ''''), (''qty'', JStr ''5''),
                        (''unitPrice'', JStr '''')]]),
           (''sales'', JArr [JStr ''''])]"

text \<open>A storage whose current slot is not JSON, beside a legacy slot that is.\<close>

definition broken_current :: localStorage where
  "broken_current =
     \<lparr>slots = [STORAGE_KEY \<mapsto> ''{oops'', ''po_app_state_v2'' \<mapsto> JSON_stringify legacy_doc],
      writable = True\<rparr>"

definition only_legacy :: localStorage where
  "only_legacy =
     \<lparr>slots = [''po_app_state_v1'' \<mapsto> JSON_stringify legacy_doc], writable = True\<rparr>"

definition empty_storage :: localStorage where
  "empty_storage = \<lparr>slots = Map.empty, writable = True\<rparr>"




section \<open>The component: state, actions and effects\<close>

definition bind_err :: "error + 'a \<Rightarrow> ('a \<Rightarrow> error + 'b) \<Rightarrow> error + 'b" where
  "bind_err m f = (case m of Inl e \<Rightarrow> Inl e | Inr x \<Rightarrow> f x)"

text \<open>The object literal \<open>{ ...s, k: v }\<close>.\<close>

definition obj_with :: "jv \<Rightarrow> string \<Rightarrow> jv \<Rightarrow> jv" where
  "obj_with s k v = JObj (AList.update k v (own_props s))"

text \<open>
  \<open>a === b\<close>. Two arrays or objects are equal only when they are the same reference, which
  never holds where the program compares (a length against a length).
\<close>

definition strict_eq :: "jv \<Rightarrow> jv \<Rightarrow> bool" where
  "strict_eq a b =
     (case (a, b) of
        (JNum x, JNum y) \<Rightarrow> x = y \<and> x \<noteq> NaN
      | (JStr x, JStr y) \<Rightarrow> x = y
      | (JBool x, JBool y) \<Rightarrow> x = y
      | (JNull, JNull) \<Rightarrow> True
      | (JUndefined, JUndefined) \<Rightarrow> True
      | _ \<Rightarrow> False)"

text \<open>
  \<open>setAndSave(updater)\<close>, on the state and the storage: the updater gives the next state,
  which is written to the current slot. (The saved flag is not part of the model.)
\<close>

definition setAndSave ::
  "(jv \<Rightarrow> error + jv) \<Rightarrow> jv \<times> localStorage \<Rightarrow> error + (jv \<times> localStorage)" where
  "setAndSave updater c =
     bind_err (updater (fst c)) (\<lambda>next.
       bind_err (setItem (snd c) STORAGE_KEY (JSON_stringify next)) (\<lambda>st'.
         Inr (next, st')))"

definition newPO_state :: jv where
  "newPO_state =
     JObj [(''option'', JStr ''KNPC_73000''), (''header'', defaultHeader),
           (''items'', JArr [defaultItem]), (''sales'', JArr [JStr ''''])]"

definition newPO :: "jv \<times> localStorage \<Rightarrow> error + (jv \<times> localStorage)" where
  "newPO c = setAndSave (\<lambda>s. Inr newPO_state) c"

text \<open>\<open>updateHeader({ k: v })\<close>, for the one-field patches that the form sends.\<close>

definition updateHeader_update :: "string \<Rightarrow> jv \<Rightarrow> jv \<Rightarrow> error + jv" where
  "updateHeader_update k v s =
     bind_err (get_prop s ''header'') (\<lambda>h.
       Inr (obj_with s ''header'' (obj_with h k v)))"

definition updateHeader ::
  "string \<Rightarrow> jv \<Rightarrow> jv \<times> localStorage \<Rightarrow> error + (jv \<times> localStorage)" where
  "updateHeader k v c = setAndSave (updateHeader_update k v) c"

definition updateItem_update :: "nat \<Rightarrow> string \<Rightarrow> jv \<Rightarrow> jv \<Rightarrow> error + jv" where
  "updateItem_update i k v s =
     bind_err (get_prop s ''items'') (\<lambda>items.
       bind_err (as_array items) (\<lambda>rows.
         bind_err (array_map (\<lambda>r idx. Inr (if idx = i then obj_with r k v else r)) rows)
           (\<lambda>rows'. Inr (obj_with s ''items'' (JArr rows')))))"

definition updateItem ::
  "nat \<Rightarrow> string \<Rightarrow> jv \<Rightarrow> jv \<times> localStorage \<Rightarrow> error + (jv \<times> localStorage)" where
  "updateItem i k v c = setAndSave (updateItem_update i k v) c"

definition addRow_update :: "jv \<Rightarrow> error + jv" where
  "addRow_update s =
     bind_err (get_prop s ''items'') (\<lambda>items.
       bind_err (iterate items) (\<lambda>rows.
         bind_err (get_prop s ''sales'') (\<lambda>sales.
           bind_err (iterate sales) (\<lambda>ss.
             Inr (obj_with (obj_with s ''items'' (JArr (rows @ [defaultItem])))
                    ''sales'' (JArr (ss @ [JStr ''''])))))))"

definition addRow :: "jv \<times> localStorage \<Rightarrow> error + (jv \<times> localStorage)" where
  "addRow c = setAndSave addRow_update c"

definition removeRow_update :: "nat \<Rightarrow> jv \<Rightarrow> error + jv" where
  "removeRow_update i s =
     bind_err (get_prop s ''items'') (\<lambda>items.
       bind_err (get_prop items ''length'') (\<lambda>n.
         if strict_eq n (JNum (Fin 1)) then Inr s
         else
           bind_err (as_array items) (\<lambda>rows.
             bind_err (get_prop s ''sales'') (\<lambda>sales.
               bind_err (as_array sales) (\<lambda>ss.
                 Inr (obj_with (obj_with s ''items'' (JArr (filter_index (\<lambda>x. x \<noteq> i) rows)))
                        ''sales'' (JArr (filter_index (\<lambda>x. x \<noteq> i) ss))))))))"

definition removeRow :: "nat \<Rightarrow> jv \<times> localStorage \<Rightarrow> error + (jv \<times> localStorage)" where
  "removeRow i c = setAndSave (removeRow_update i) c"

definition clearAllItems_update :: "jv \<Rightarrow> error + jv" where
  "clearAllItems_update s =
     Inr (obj_with (obj_with s ''items'' (JArr [defaultItem])) ''sales'' (JArr [JStr '''']))"

definition clearAllItems :: "jv \<times> localStorage \<Rightarrow> error + (jv \<times> localStorage)" where
  "clearAllItems c = setAndSave clearAllItems_update c"

text \<open>The option picker: \<open>setAndSave((s) => ({ ...s, option: e.target.value }))\<close>.\<close>

definition setOption :: "string \<Rightarrow> jv \<times> localStorage \<Rightarrow> error + (jv \<times> localStorage)" where
  "setOption k c = setAndSave (\<lambda>s. Inr (obj_with s ''option'' (JStr k))) c"

text \<open>
  The change handler of a sold-quantity input of row \<open>i\<close>, on the text \<open>typed\<close>: the value
  to store, computed from the row as rendered, and the update of the sales list.
\<close>

definition qtyOf :: "jv \<Rightarrow> number" where
  "qtyOf row = parseNum (get_opt row ''qty'')"

definition sold_nextVal :: "jv \<Rightarrow> string \<Rightarrow> string" where
  "sold_nextVal row typed =
     (let qtyN = qtyOf row;
          soldN = Math_min qtyN (Math_max (parseNum (JStr typed)) (Fin 0))
      in if parseNum (JStr typed) \<noteq> soldN then Number_toString soldN else typed)"

definition soldEdit_update :: "nat \<Rightarrow> string \<Rightarrow> jv \<Rightarrow> error + jv" where
  "soldEdit_update i nextVal s =
     bind_err (get_prop s ''sales'') (\<lambda>sales.
       bind_err (iterate sales) (\<lambda>next.
         Inr (obj_with s ''sales'' (JArr (array_set next i (JStr nextVal))))))"

definition soldEdit ::
  "nat \<Rightarrow> string \<Rightarrow> jv \<times> localStorage \<Rightarrow> error + (jv \<times> localStorage)" where
  "soldEdit i typed c =
     bind_err (get_prop (fst c) ''items'') (\<lambda>items.
       bind_err (get_index items i) (\<lambda>row.
         setAndSave (soldEdit_update i (sold_nextVal row typed)) c))"

text \<open>
  The lookup \<open>BENEFICIARY_OPTIONS[option]\<close>. The key is the text of the option. Beside its
  two own properties the table inherits the members of \<open>Object.prototype\<close>; such a member
  is a function or the prototype itself and has none of the properties that the rule
  reads, so an empty object stands for it.
\<close>

definition Object_prototype_names :: "string list" where
  "Object_prototype_names =
     [''constructor'', ''hasOwnProperty'', ''isPrototypeOf'', ''propertyIsEnumerable'',
      ''toLocaleString'', ''toString'', ''valueOf'', ''__proto__'', ''__defineGetter__'',
      ''__defineSetter__'', ''__lookupGetter__'', ''__lookupSetter__'']"

definition lookup_preset :: "jv \<Rightarrow> jv" where
  "lookup_preset option =
     (case get_opt BENEFICIARY_OPTIONS (to_string option) of
        JUndefined \<Rightarrow> (if to_string option \<in> set Object_prototype_names then JObj []
                       else JUndefined)
      | b \<Rightarrow> b)"

text \<open>The first effect, run with the \<open>option\<close> of the render it belongs to.\<close>

definition option_sync_update :: "jv \<Rightarrow> jv \<Rightarrow> error + jv" where
  "option_sync_update option s =
     bind_err (get_prop s ''header'') (\<lambda>h.
       bind_err (get_prop (lookup_preset option) ''beneficiaryName'') (\<lambda>name.
         bind_err (get_prop (lookup_preset option) ''ltsaNumber'') (\<lambda>num.
           Inr (obj_with s ''header''
                  (obj_with (obj_with h ''beneficiaryName'' name) ''ltsaNumber'' num)))))"

definition option_effect ::
  "jv \<Rightarrow> jv \<times> localStorage \<Rightarrow> error + (jv \<times> localStorage)" where
  "option_effect option c = setAndSave (option_sync_update option) c"

text \<open>
  The second effect, run with the \<open>sales\<close> and \<open>items\<close> of the render it belongs to. It
  returns the pair unchanged, and sets no state, when the two lengths agree.
\<close>

definition next_sale :: "jv \<Rightarrow> jv \<Rightarrow> nat \<Rightarrow> error + jv" where
  "next_sale sales r i =
     bind_err (get_index sales i) (\<lambda>e.
       Inr (if nullish e then JStr '''' else JStr (to_string e)))"

definition sales_effect ::
  "jv \<Rightarrow> jv \<Rightarrow> jv \<times> localStorage \<Rightarrow> error + ((jv \<times> localStorage) \<times> bool)" where
  "sales_effect sales items c =
     bind_err (get_prop sales ''length'') (\<lambda>sl.
       bind_err (get_prop items ''length'') (\<lambda>il.
         if \<not> strict_eq sl il
         then bind_err (as_array items) (\<lambda>rows.
                bind_err (array_map (next_sale sales) rows) (\<lambda>nextSales.
                  bind_err (setAndSave (\<lambda>s. Inr (obj_with s ''sales'' (JArr nextSales))) c)
                    (\<lambda>c'. Inr (c', True))))
         else Inr (c, False)))"

text \<open>
  A render of the component body, up to the markup it returns: the four parts of the
  state, or the exception that the body throws. The line totals read \<open>unitPrice\<close> of every
  row, the franco memo reads \<open>francoDate\<close> of the header, and the remaining quantities
  read \<open>sales[i]\<close> for every row.
\<close>

definition render :: "jv \<Rightarrow> error + (jv \<times> jv \<times> jv \<times> jv)" where
  "render s =
     bind_err (get_prop s ''option'') (\<lambda>option.
       bind_err (get_prop s ''header'') (\<lambda>header.
         bind_err (get_prop s ''items'') (\<lambda>items.
           bind_err (get_prop s ''sales'') (\<lambda>sales.
             bind_err (as_array items) (\<lambda>rows.
               if JNull \<in> set rows \<or> JUndefined \<in> set rows then Inl TypeError
               else if nullish header then Inl TypeError
               else if rows \<noteq> [] \<and> rows \<noteq> replicate (length rows) JHole \<and> nullish sales
               then Inl TypeError
               else Inr (option, header, items, sales))))))"

text \<open>
  The component between two events: its state, the storage, and the dependencies
  \<open>[option]\<close> and \<open>[items.length]\<close> of the last render, absent before the first one.
  Dependencies are compared with \<open>Object.is\<close>, which is equality on texts and numbers.
\<close>

record component =
  state :: jv
  storage :: localStorage
  deps :: "(jv \<times> jv) option"

text \<open>
  One render with the effects that follow it. An effect runs when its dependency differs
  from the one of the last render; the second component of the result tells whether an
  effect has set the state, in which case the component renders again.
\<close>

definition commit :: "component \<Rightarrow> error + (component \<times> bool)" where
  "commit c =
     bind_err (render (state c)) (\<lambda>(option, header, items, sales).
       bind_err (get_prop items ''length'') (\<lambda>len.
         let run1 = (case deps c of None \<Rightarrow> True | Some (o', l') \<Rightarrow> o' \<noteq> option);
             run2 = (case deps c of None \<Rightarrow> True | Some (o', l') \<Rightarrow> l' \<noteq> len)
         in bind_err (if run1 then option_effect option (state c, storage c)
                      else Inr (state c, storage c)) (\<lambda>c1.
              bind_err (if run2 then sales_effect sales items c1 else Inr (c1, False))
                (\<lambda>(c2, changed).
                   Inr (\<lparr>state = fst c2, storage = snd c2, deps = Some (option, len)\<rparr>,
                        run1 \<or> changed)))))"

text \<open>Renders until no effect sets the state; \<open>None\<close> when the fuel runs out first.\<close>

fun settle :: "nat \<Rightarrow> component \<Rightarrow> (error + component) option" where
  "settle 0 c = None"
| "settle (Suc n) c =
     (case commit c of
        Inl e \<Rightarrow> Some (Inl e)
      | Inr (c', again) \<Rightarrow> if again then settle n c' else Some (Inr c'))"

text \<open>Mounting the component: the state initializer, then the renders.\<close>

definition mount :: "(string \<Rightarrow> jv option) \<Rightarrow> localStorage \<Rightarrow> nat \<Rightarrow> (error + component) option" where
  "mount parse st fuel =
     (let (s, st') = load parse st
      in settle fuel \<lparr>state = s, storage = st', deps = None\<rparr>)"

text \<open>An action on a mounted component, and the renders that follow it.\<close>

definition act ::
  "(jv \<times> localStorage \<Rightarrow> error + (jv \<times> localStorage)) \<Rightarrow> nat \<Rightarrow> component
     \<Rightarrow> (error + component) option" where
  "act action fuel c =
     (case action (state c, storage c) of
        Inl e \<Rightarrow> Some (Inl e)
      | Inr c' \<Rightarrow> settle fuel (c\<lparr>state := fst c', storage := snd c'\<rparr>))"

text \<open>The import as an action: it sets the state only when it shows no alert.\<close>

definition import_action ::
  "(string \<Rightarrow> jv option) \<Rightarrow> string \<Rightarrow> jv \<times> localStorage \<Rightarrow> error + (jv \<times> localStorage)" where
  "import_action parse text c = Inr (fst (importJSON parse c text))"

text \<open>The lengths that the second effect keeps equal, for a state whose lists are arrays.\<close>

definition items_length :: "jv \<Rightarrow> nat option" where
  "items_length s = (case get_opt s ''items'' of JArr xs \<Rightarrow> Some (length xs) | _ \<Rightarrow> None)"

definition sales_length :: "jv \<Rightarrow> nat option" where
  "sales_length s = (case get_opt s ''sales'' of JArr xs \<Rightarrow> Some (length xs) | _ \<Rightarrow> None)"

text \<open>A document with one row, of quantity \<open>"10"\<close>.\<close>

definition ten_state :: jv where
  "ten_state =
     JObj [(''option'', JStr ''KNPC_73000''), (''header'', defaultHeader),
           (''items'', JArr [obj_with defaultItem ''qty'' (JStr ''10'')]),
           (''sales'', JArr [JStr ''''])]"

section \<open>Properties of the helpers\<close>


lemma num_less_Fin0: "num_less d (Fin 0) = (d = NInf \<or> (\<exists>q. d = Fin q \<and> q < 0))"
  by (cases d) auto

lemma num_less_15: "num_less (Fin 15) d = (d = PInf \<or> (\<exists>q. d = Fin q \<and> 15 < q))"
  by (cases d) auto


lemma num_order_cases:
  "isNaN d \<or> num_less d (Fin 0) \<or> (num_le (Fin 0) d \<and> num_le d (Fin 15)) \<or> num_less (Fin 15) d"
  by (cases d) (auto simp: isNaN_def num_le_def)

lemma daysUntil_integral:
  "daysUntil clk fd = NaN \<or> daysUntil clk fd = PInf \<or> daysUntil clk fd = NInf
   \<or> (\<exists>n::int. daysUntil clk fd = Fin (of_int n))"
  by (auto simp: daysUntil_def Math_ceil_def Let_def split: number.splits)

lemma Number_toString_1: "Number_toString (Fin 1) = ''1''"
  by code_simp

lemma Number_toString_21: "Number_toString (Fin 21) = ''21''"
  by code_simp

text \<open>
  C9. The franco banner is decided by \<open>daysUntil\<close> alone, in four tiers: \<open>NaN\<close> gives
  the invalid-date text in the alert colour; a negative count gives "passed by N day(s)"
  in the alert colour, \<open>N\<close> being the absolute value; a count from 0 to 15 inclusive
  gives "N day(s) left" in the warning colour; a count above 15 gives "N day(s) left" in
  the normal colour. Every day count falls in exactly one tier, since the negative one
  excludes the other two and 15 separates the last two.
\<close>

theorem francoInfo_tiers:
  "(isNaN (daysUntil clk fd) \<longrightarrow>
      francoInfo clk fd = \<lparr>info_text = ''Invalid Franco Date'', info_color = ''#b91c1c''\<rparr>)
   \<and> (num_less (daysUntil clk fd) (Fin 0) \<longrightarrow>
      francoInfo clk fd =
        \<lparr>info_text = ''Franco date passed by ''
                      @ Number_toString (Math_abs (daysUntil clk fd)) @ '' day(s).'',
         info_color = ''#b91c1c''\<rparr>)
   \<and> (num_le (Fin 0) (daysUntil clk fd) \<and> num_le (daysUntil clk fd) (Fin 15) \<longrightarrow>
      francoInfo clk fd =
        \<lparr>info_text = Number_toString (daysUntil clk fd) @ '' day(s) left until Franco date.'',
         info_color = ''#b45309''\<rparr>)
   \<and> (num_less (Fin 15) (daysUntil clk fd) \<longrightarrow>
      francoInfo clk fd =
        \<lparr>info_text = Number_toString (daysUntil clk fd) @ '' day(s) left until Franco date.'',
         info_color = ''#065f46''\<rparr>)
   \<and> (isNaN (daysUntil clk fd) \<or> num_less (daysUntil clk fd) (Fin 0)
        \<or> (num_le (Fin 0) (daysUntil clk fd) \<and> num_le (daysUntil clk fd) (Fin 15))
        \<or> num_less (Fin 15) (daysUntil clk fd))"
proof -
  define d where "d = daysUntil clk fd"
  show ?thesis
    unfolding francoInfo_def Let_def d_def [symmetric]
    by (cases d) (auto simp: isNaN_def num_le_def)
qed

theorem francoInfo_tiers_witness:
  "francoInfo epoch_clock (JStr ''soon'') =
     \<lparr>info_text = ''Invalid Franco Date'', info_color = ''#b91c1c''\<rparr>
   \<and> francoInfo epoch_clock (JStr ''1969-12-30'') =
     \<lparr>info_text = ''Franco date passed by 1 day(s).'', info_color = ''#b91c1c''\<rparr>
   \<and> francoInfo epoch_clock (JStr ''1970-01-01'') =
     \<lparr>info_text = ''1 day(s) left until Franco date.'', info_color = ''#b45309''\<rparr>
   \<and> francoInfo epoch_clock (JStr ''1970-01-21'') =
     \<lparr>info_text = ''21 day(s) left until Franco date.'', info_color = ''#065f46''\<rparr>"
proof -
  have d1: "daysUntil epoch_clock (JStr ''soon'') = NaN" by code_simp
  have d2: "daysUntil epoch_clock (JStr ''1969-12-30'') = Fin (- 1)" by code_simp
  have d3: "daysUntil epoch_clock (JStr ''1970-01-01'') = Fin 1" by code_simp
  have d4: "daysUntil epoch_clock (JStr ''1970-01-21'') = Fin 21" by code_simp
  note t = francoInfo_tiers [of epoch_clock]
  have "francoInfo epoch_clock (JStr ''soon'') =
     \<lparr>info_text = ''Invalid Franco Date'', info_color = ''#b91c1c''\<rparr>"
    using t [of "JStr ''soon''"] by (simp add: d1 isNaN_def)
  moreover have "francoInfo epoch_clock (JStr ''1969-12-30'') =
     \<lparr>info_text = ''Franco date passed by 1 day(s).'', info_color = ''#b91c1c''\<rparr>"
    using t [of "JStr ''1969-12-30''"] by (simp add: d2 Number_toString_1 Math_abs_def)
  moreover have "francoInfo epoch_clock (JStr ''1970-01-01'') =
     \<lparr>info_text = ''1 day(s) left until Franco date.'', info_color = ''#b45309''\<rparr>"
    using t [of "JStr ''1970-01-01''"] by (simp add: d3 Number_toString_1 num_le_def)
  moreover have "francoInfo epoch_clock (JStr ''1970-01-21'') =
     \<lparr>info_text = ''21 day(s) left until Franco date.'', info_color = ''#065f46''\<rparr>"
    using t [of "JStr ''1970-01-21''"] by (simp add: d4 Number_toString_21)
  ultimately show ?thesis by blast
qed



lemma get_opt_update:
  "get_opt (JObj (AList.update k v kvs)) k' = (if k' = k then v else get_opt (JObj kvs) k')"
  by (simp add: get_opt_def get_prop_def update_conv')






lemma migrate_legacy_doc: "migrate legacy_doc = Inr legacy_migrated"
  by code_simp




lemma JSON_parse_absent:
  "getItem st k = None \<or> getItem st k = Some [] \<Longrightarrow>
   JSON_parse parse (getItem_or_null st k) = Inr JNull"
  by (auto simp: getItem_or_null_def JSON_parse_def)

lemma parse_legacy_text:
  "JSON_parse (parse_of [legacy_doc]) (JSON_stringify legacy_doc) = Inr legacy_doc"
  by code_simp

lemma parse_oops: "JSON_parse (parse_of [legacy_doc]) ''{oops'' = Inl SyntaxError"
  by code_simp

lemma truthy_legacy_doc: "truthy legacy_doc"
  by (simp add: legacy_doc_def truthy_def)

lemma default_not_migrated: "defaultState \<noteq> legacy_migrated"
  by (simp add: defaultState_def legacy_migrated_def)

lemma broken_current_slots:
  "getItem_or_null broken_current STORAGE_KEY = ''{oops''"
  "getItem_or_null broken_current ''po_app_state_v2'' = JSON_stringify legacy_doc"
  by (simp_all add: getItem_or_null_def getItem_def broken_current_def STORAGE_KEY_def
      JSON_stringify_def legacy_doc_def)

lemma only_legacy_slots:
  "getItem only_legacy STORAGE_KEY = None"
  "getItem only_legacy ''po_app_state_v2'' = None"
  "getItem_or_null only_legacy ''po_app_state_v1'' = JSON_stringify legacy_doc"
  by (simp_all add: getItem_or_null_def getItem_def only_legacy_def STORAGE_KEY_def
      JSON_stringify_def legacy_doc_def)

text \<open>
  C2, as the code has it. The initializer always returns a state. A current slot that
  parses to a truthy value is returned as it is. When the current slot is absent, empty
  or holds a falsy value, both legacy slots are parsed, the newer one is taken if it is
  truthy and the older one otherwise; a truthy legacy value is migrated, written under
  the current key and returned, and with no truthy value in any slot the default state is
  returned. The default state is also returned, and the storage left as it was, whenever
  something throws: a current slot that is not JSON (the legacy slots are then not
  read), a legacy slot that is not JSON (even when the other one holds a legacy shape),
  a migration that throws, or a storage that refuses the write.
\<close>

theorem load_cases:
  "(\<forall>v3. JSON_parse parse (getItem_or_null st STORAGE_KEY) = Inr v3 \<and> truthy v3 \<longrightarrow>
      load parse st = (v3, st))
   \<and> (\<forall>v3 v2 v1 m.
        JSON_parse parse (getItem_or_null st STORAGE_KEY) = Inr v3 \<and> \<not> truthy v3
        \<and> JSON_parse parse (getItem_or_null st ''po_app_state_v2'') = Inr v2
        \<and> JSON_parse parse (getItem_or_null st ''po_app_state_v1'') = Inr v1
        \<and> (truthy v2 \<or> truthy v1)
        \<and> migrate (if truthy v2 then v2 else v1) = Inr m \<and> writable st \<longrightarrow>
        load parse st = (m, st\<lparr>slots := (slots st)(STORAGE_KEY \<mapsto> JSON_stringify m)\<rparr>))
   \<and> (\<forall>v3 v2 v1.
        JSON_parse parse (getItem_or_null st STORAGE_KEY) = Inr v3 \<and> \<not> truthy v3
        \<and> JSON_parse parse (getItem_or_null st ''po_app_state_v2'') = Inr v2
        \<and> JSON_parse parse (getItem_or_null st ''po_app_state_v1'') = Inr v1
        \<and> \<not> truthy v2 \<and> \<not> truthy v1 \<longrightarrow>
        load parse st = (defaultState, st))
   \<and> (\<forall>e. JSON_parse parse (getItem_or_null st STORAGE_KEY) = Inl e \<longrightarrow>
        load parse st = (defaultState, st))
   \<and> (\<forall>v3 e.
        JSON_parse parse (getItem_or_null st STORAGE_KEY) = Inr v3 \<and> \<not> truthy v3
        \<and> (JSON_parse parse (getItem_or_null st ''po_app_state_v2'') = Inl e
            \<or> JSON_parse parse (getItem_or_null st ''po_app_state_v1'') = Inl e) \<longrightarrow>
        load parse st = (defaultState, st))
   \<and> (\<forall>v3 v2 v1 e.
        JSON_parse parse (getItem_or_null st STORAGE_KEY) = Inr v3 \<and> \<not> truthy v3
        \<and> JSON_parse parse (getItem_or_null st ''po_app_state_v2'') = Inr v2
        \<and> JSON_parse parse (getItem_or_null st ''po_app_state_v1'') = Inr v1
        \<and> (truthy v2 \<or> truthy v1)
        \<and> (migrate (if truthy v2 then v2 else v1) = Inl e \<or> \<not> writable st) \<longrightarrow>
        load parse st = (defaultState, st))
   \<and> (getItem st STORAGE_KEY = None \<or> getItem st STORAGE_KEY = Some [] \<longrightarrow>
        JSON_parse parse (getItem_or_null st STORAGE_KEY) = Inr JNull \<and> \<not> truthy JNull)"
proof (intro conjI allI impI)
  fix v3
  assume "JSON_parse parse (getItem_or_null st STORAGE_KEY) = Inr v3 \<and> truthy v3"
  then show "load parse st = (v3, st)"
    by (simp add: load_def load_try_def)
next
  fix v3 v2 v1 m
  assume "JSON_parse parse (getItem_or_null st STORAGE_KEY) = Inr v3 \<and> \<not> truthy v3
        \<and> JSON_parse parse (getItem_or_null st ''po_app_state_v2'') = Inr v2
        \<and> JSON_parse parse (getItem_or_null st ''po_app_state_v1'') = Inr v1
        \<and> (truthy v2 \<or> truthy v1)
        \<and> migrate (if truthy v2 then v2 else v1) = Inr m \<and> writable st"
  then show "load parse st = (m, st\<lparr>slots := (slots st)(STORAGE_KEY \<mapsto> JSON_stringify m)\<rparr>)"
    by (auto simp: load_def load_try_def logical_or_def setItem_def Let_def)
next
  fix v3 v2 v1
  assume "JSON_parse parse (getItem_or_null st STORAGE_KEY) = Inr v3 \<and> \<not> truthy v3
        \<and> JSON_parse parse (getItem_or_null st ''po_app_state_v2'') = Inr v2
        \<and> JSON_parse parse (getItem_or_null st ''po_app_state_v1'') = Inr v1
        \<and> \<not> truthy v2 \<and> \<not> truthy v1"
  then show "load parse st = (defaultState, st)"
    by (simp add: load_def load_try_def logical_or_def)
next
  fix e
  assume "JSON_parse parse (getItem_or_null st STORAGE_KEY) = Inl e"
  then show "load parse st = (defaultState, st)"
    by (simp add: load_def load_try_def)
next
  fix v3 e
  assume "JSON_parse parse (getItem_or_null st STORAGE_KEY) = Inr v3 \<and> \<not> truthy v3
        \<and> (JSON_parse parse (getItem_or_null st ''po_app_state_v2'') = Inl e
            \<or> JSON_parse parse (getItem_or_null st ''po_app_state_v1'') = Inl e)"
  then show "load parse st = (defaultState, st)"
    by (auto simp: load_def load_try_def split: sum.splits)
next
  fix v3 v2 v1 e
  assume "JSON_parse parse (getItem_or_null st STORAGE_KEY) = Inr v3 \<and> \<not> truthy v3
        \<and> JSON_parse parse (getItem_or_null st ''po_app_state_v2'') = Inr v2
        \<and> JSON_parse parse (getItem_or_null st ''po_app_state_v1'') = Inr v1
        \<and> (truthy v2 \<or> truthy v1)
        \<and> (migrate (if truthy v2 then v2 else v1) = Inl e \<or> \<not> writable st)"
  then show "load parse st = (defaultState, st)"
    by (auto simp: load_def load_try_def logical_or_def setItem_def Let_def split: sum.splits)
next
  assume "getItem st STORAGE_KEY = None \<or> getItem st STORAGE_KEY = Some []"
  then show "JSON_parse parse (getItem_or_null st STORAGE_KEY) = Inr JNull"
    by (rule JSON_parse_absent)
next
  show "\<not> truthy JNull"
    by (simp add: truthy_def)
qed

theorem load_cases_witness:
  "load (parse_of [legacy_doc]) only_legacy
     = (legacy_migrated,
        only_legacy\<lparr>slots := (slots only_legacy)(STORAGE_KEY \<mapsto> JSON_stringify legacy_migrated)\<rparr>)
   \<and> load (parse_of [legacy_doc]) empty_storage = (defaultState, empty_storage)
   \<and> load (parse_of [legacy_doc]) broken_current = (defaultState, broken_current)"
proof -
  let ?p = "parse_of [legacy_doc]"
  have n: "\<not> truthy JNull"
    by (simp add: truthy_def)
  have a1: "JSON_parse ?p (getItem_or_null only_legacy STORAGE_KEY) = Inr JNull"
    and a2: "JSON_parse ?p (getItem_or_null only_legacy ''po_app_state_v2'') = Inr JNull"
    by (simp_all add: JSON_parse_absent only_legacy_slots)
  have a3: "JSON_parse ?p (getItem_or_null only_legacy ''po_app_state_v1'') = Inr legacy_doc"
    by (simp add: only_legacy_slots parse_legacy_text)
  have a4: "migrate (if truthy JNull then JNull else legacy_doc) = Inr legacy_migrated"
    by (simp add: n migrate_legacy_doc)
  have a5: "writable only_legacy"
    by (simp add: only_legacy_def)
  have b: "JSON_parse ?p (getItem_or_null empty_storage k) = Inr JNull" for k
    by (simp add: JSON_parse_absent getItem_def empty_storage_def)
  have c: "JSON_parse ?p (getItem_or_null broken_current STORAGE_KEY) = Inl SyntaxError"
    by (simp add: broken_current_slots parse_oops)
  note t = load_cases [of ?p]
  have "load ?p only_legacy
     = (legacy_migrated,
        only_legacy\<lparr>slots := (slots only_legacy)(STORAGE_KEY \<mapsto> JSON_stringify legacy_migrated)\<rparr>)"
    using t [of only_legacy] a1 a2 a3 a4 a5 n truthy_legacy_doc by blast
  moreover have "load ?p empty_storage = (defaultState, empty_storage)"
    using t [of empty_storage] b n by blast
  moreover have "load ?p broken_current = (defaultState, broken_current)"
    using t [of broken_current] c by blast
  ultimately show ?thesis
    by (intro conjI)
qed

text \<open>
  C2 as stated fails: with a current slot that is not JSON and a legacy shape in the
  newer legacy slot, the initializer returns the default state, not the migrated legacy
  document, and writes nothing.
\<close>

theorem load_counterexample:
  "JSON_parse (parse_of [legacy_doc]) (getItem_or_null broken_current STORAGE_KEY) = Inl SyntaxError
   \<and> JSON_parse (parse_of [legacy_doc]) (getItem_or_null broken_current ''po_app_state_v2'')
       = Inr legacy_doc
   \<and> truthy legacy_doc
   \<and> migrate legacy_doc = Inr legacy_migrated
   \<and> fst (load (parse_of [legacy_doc]) broken_current) = defaultState
   \<and> fst (load (parse_of [legacy_doc]) broken_current) \<noteq> legacy_migrated
   \<and> getItem (snd (load (parse_of [legacy_doc]) broken_current)) STORAGE_KEY = Some ''{oops''"
proof -
  have c: "JSON_parse (parse_of [legacy_doc]) (getItem_or_null broken_current STORAGE_KEY)
             = Inl SyntaxError"
    by (simp add: broken_current_slots parse_oops)
  have d: "JSON_parse (parse_of [legacy_doc]) (getItem_or_null broken_current ''po_app_state_v2'')
       = Inr legacy_doc"
    by (simp add: broken_current_slots parse_legacy_text)
  have l: "load (parse_of [legacy_doc]) broken_current = (defaultState, broken_current)"
    using c by (simp add: load_def load_try_def)
  have g: "getItem broken_current STORAGE_KEY = Some ''{oops''"
    by (simp add: getItem_def broken_current_def STORAGE_KEY_def)
  from c d l g truthy_legacy_doc migrate_legacy_doc default_not_migrated show ?thesis
    by simp
qed




















lemma array_set_nth: "i < length (array_set xs i v) \<and> array_set xs i v ! i = v"
  by (simp add: array_set_def nth_append)

lemma array_set_other:
  "j < length xs \<Longrightarrow> j \<noteq> i \<Longrightarrow> array_set xs i v ! j = xs ! j \<and> j < length (array_set xs i v)"
  by (simp add: array_set_def nth_append)

lemma get_prop_obj_with:
  "get_prop (obj_with s k v) k' = Inr (if k' = k then v else get_opt (JObj (own_props s)) k')"
  by (simp add: obj_with_def get_prop_def get_opt_def update_conv')

lemma get_opt_obj_with:
  "get_opt (obj_with s k v) k' = (if k' = k then v else get_opt (JObj (own_props s)) k')"
  by (simp add: get_opt_def get_prop_obj_with)

lemma own_props_JObj: "own_props (JObj kvs) = kvs"
  by (simp add: own_props_def)

lemma get_prop_items_obj:
  "get_prop s k = Inr (JArr xs) \<Longrightarrow> \<exists>kvs. s = JObj kvs"
  by (cases s) (auto simp: get_prop_def split: if_splits)

lemma clamp_Fin:
  "Math_min (Fin b) (Math_max (Fin a) (Fin 0)) = Fin (min b (max a 0))"
  by (auto simp: Math_min_def Math_max_def min_def max_def)

lemma sold_nextVal_999: "sold_nextVal (obj_with defaultItem ''qty'' (JStr ''10'')) ''999'' = ''10''"
  by code_simp

lemma sold_nextVal_3pcs:
  "sold_nextVal (obj_with defaultItem ''qty'' (JStr ''10'')) ''3 pcs'' = ''3 pcs''"
  by code_simp

text \<open>
  C5. A sold-quantity edit of row \<open>i\<close> with the text \<open>typed\<close> stores, at index \<open>i\<close> of the
  sales list, the text of \<open>n\<close> when \<open>n\<close> differs from the number parsed from \<open>typed\<close>, and
  \<open>typed\<close> itself otherwise, where \<open>n\<close> is that number clamped from below by 0 and then from
  above by the number parsed from the quantity of the row; the other entries keep their
  value. Typing \<open>"999"\<close> against the quantity \<open>"10"\<close> stores \<open>"10"\<close>, and typing \<open>"3 pcs"\<close>
  stores \<open>"3 pcs"\<close>.
\<close>

theorem soldEdit_stores:
  assumes "get_prop s ''items'' = Inr (JArr rows)" and "i < length rows"
    and "rows ! i \<noteq> JHole"
    and "get_prop s ''sales'' = Inr (JArr ss)" and "writable st"
    and "parseNum (JStr typed) = Fin a" and "parseNum (get_opt (rows ! i) ''qty'') = Fin b"
  shows "\<exists>s' sales'.
     soldEdit i typed (s, st)
       = Inr (s', st\<lparr>slots := (slots st)(STORAGE_KEY \<mapsto> JSON_stringify s')\<rparr>)
     \<and> get_prop s' ''sales'' = Inr (JArr sales') \<and> i < length sales'
     \<and> sales' ! i = JStr (if min b (max a 0) \<noteq> a then Number_toString (Fin (min b (max a 0)))
                           else typed)
     \<and> (\<forall>j<length ss. j \<noteq> i \<longrightarrow>
           get_index (JArr sales') j = get_index (JArr ss) j)
     \<and> get_prop s' ''items'' = Inr (JArr rows)
     \<and> sold_nextVal (obj_with defaultItem ''qty'' (JStr ''10'')) ''999'' = ''10''
     \<and> sold_nextVal (obj_with defaultItem ''qty'' (JStr ''10'')) ''3 pcs'' = ''3 pcs''"
proof -
  from assms(1) obtain kvs where s: "s = JObj kvs"
    using get_prop_items_obj by blast
  let ?v = "if min b (max a 0) \<noteq> a then Number_toString (Fin (min b (max a 0))) else typed"
  let ?next = "map (\<lambda>x. if x = JHole then JUndefined else x) ss"
  let ?sales = "array_set ?next i (JStr ?v)"
  let ?s' = "obj_with s ''sales'' (JArr ?sales)"
  have row: "get_index (JArr rows) i = Inr (rows ! i)"
    using assms(2,3) by (simp add: get_index_def)
  have nv: "sold_nextVal (rows ! i) typed = ?v"
    using assms(6,7) by (simp add: sold_nextVal_def qtyOf_def Let_def clamp_Fin)
  have upd: "soldEdit_update i ?v s = Inr ?s'"
    using assms(4) by (simp add: soldEdit_update_def bind_err_def iterate_def)
  have 1: "soldEdit i typed (s, st)
       = Inr (?s', st\<lparr>slots := (slots st)(STORAGE_KEY \<mapsto> JSON_stringify ?s')\<rparr>)"
    using assms(1,5) row
    by (simp add: soldEdit_def bind_err_def nv setAndSave_def upd setItem_def)
  have 2: "get_prop ?s' ''sales'' = Inr (JArr ?sales)"
    by (simp add: get_prop_obj_with)
  have 3: "i < length ?sales" "?sales ! i = JStr ?v"
    using array_set_nth [of i ?next "JStr ?v"] by simp_all
  have 4: "get_index (JArr ?sales) j = get_index (JArr ss) j" if "j < length ss" "j \<noteq> i" for j
    using that array_set_other [of j ?next i "JStr ?v"] by (simp add: get_index_def)
  have 5: "get_prop ?s' ''items'' = Inr (JArr rows)"
    using assms(1) by (simp add: get_prop_obj_with s own_props_JObj get_opt_def)
  show ?thesis
    apply (rule exI [of _ ?s'], rule exI [of _ ?sales])
    apply (intro conjI allI impI)
           apply (rule 1)
          apply (rule 2)
         apply (rule 3)
        apply (rule 3)
       apply (rule 4, assumption, assumption)
      apply (rule 5)
     apply (rule sold_nextVal_999)
    apply (rule sold_nextVal_3pcs)
    done
qed

lemma Number_toString_10: "Number_toString (Fin 10) = ''10''"
  by code_simp

lemma parseNum_examples:
  "parseNum (JStr ''999'') = Fin 999"
  "parseNum (JStr ''3 pcs'') = Fin 3"
  "parseNum (JStr ''10'') = Fin 10"
  by code_simp+

lemma ten_state_facts:
  "get_prop ten_state ''items'' = Inr (JArr [obj_with defaultItem ''qty'' (JStr ''10'')])"
  "get_prop ten_state ''sales'' = Inr (JArr [JStr ''''])"
  "get_opt (obj_with defaultItem ''qty'' (JStr ''10'')) ''qty'' = JStr ''10''"
  "obj_with defaultItem ''qty'' (JStr ''10'') \<noteq> JHole"
     apply (simp add: ten_state_def get_prop_def)
    apply (simp add: ten_state_def get_prop_def)
   apply (simp add: get_opt_obj_with)
  apply (simp add: obj_with_def)
  done

theorem soldEdit_stores_witness:
  "(\<exists>s' sales'.
      soldEdit 0 ''999'' (ten_state, empty_storage)
        = Inr (s', empty_storage\<lparr>slots := (slots empty_storage)(STORAGE_KEY \<mapsto> JSON_stringify s')\<rparr>)
      \<and> get_prop s' ''sales'' = Inr (JArr sales') \<and> sales' ! 0 = JStr ''10'')
   \<and> (\<exists>s' sales'.
      soldEdit 0 ''3 pcs'' (ten_state, empty_storage)
        = Inr (s', empty_storage\<lparr>slots := (slots empty_storage)(STORAGE_KEY \<mapsto> JSON_stringify s')\<rparr>)
      \<and> get_prop s' ''sales'' = Inr (JArr sales') \<and> sales' ! 0 = JStr ''3 pcs'')"
proof -
  let ?rows = "[obj_with defaultItem ''qty'' (JStr ''10'')]"
  have i: "0 < length ?rows" and h: "?rows ! 0 \<noteq> JHole"
    by (simp_all add: ten_state_facts)
  have w: "writable empty_storage"
    by (simp add: empty_storage_def)
  have q: "parseNum (get_opt (?rows ! 0) ''qty'') = Fin 10"
    by (simp add: ten_state_facts parseNum_examples)
  note t = soldEdit_stores [OF ten_state_facts(1) i h ten_state_facts(2) w _ q]
  from t [OF parseNum_examples(1)] obtain s1 sales1 where
    "soldEdit 0 ''999'' (ten_state, empty_storage)
        = Inr (s1, empty_storage\<lparr>slots := (slots empty_storage)(STORAGE_KEY \<mapsto> JSON_stringify s1)\<rparr>)"
    "get_prop s1 ''sales'' = Inr (JArr sales1)"
    "sales1 ! 0 = JStr (if min 10 (max 999 0) \<noteq> (999::rat)
                        then Number_toString (Fin (min 10 (max 999 0))) else ''999'')"
    by blast
  then have 1: "\<exists>s' sales'.
      soldEdit 0 ''999'' (ten_state, empty_storage)
        = Inr (s', empty_storage\<lparr>slots := (slots empty_storage)(STORAGE_KEY \<mapsto> JSON_stringify s')\<rparr>)
      \<and> get_prop s' ''sales'' = Inr (JArr sales') \<and> sales' ! 0 = JStr ''10''"
    by (intro exI [of _ s1] exI [of _ sales1]) (simp add: Number_toString_10)
  from t [OF parseNum_examples(2)] obtain s2 sales2 where
    "soldEdit 0 ''3 pcs'' (ten_state, empty_storage)
        = Inr (s2, empty_storage\<lparr>slots := (slots empty_storage)(STORAGE_KEY \<mapsto> JSON_stringify s2)\<rparr>)"
    "get_prop s2 ''sales'' = Inr (JArr sales2)"
    "sales2 ! 0 = JStr (if min 10 (max 3 0) \<noteq> (3::rat)
                        then Number_toString (Fin (min 10 (max 3 0))) else ''3 pcs'')"
    by blast
  then have 2: "\<exists>s' sales'.
      soldEdit 0 ''3 pcs'' (ten_state, empty_storage)
        = Inr (s', empty_storage\<lparr>slots := (slots empty_storage)(STORAGE_KEY \<mapsto> JSON_stringify s')\<rparr>)
      \<and> get_prop s' ''sales'' = Inr (JArr sales') \<and> sales' ! 0 = JStr ''3 pcs''"
    by (intro exI [of _ s2] exI [of _ sales2]) simp
  from 1 2 show ?thesis
    by (rule conjI)
qed

end
